theory Spec2Isabelle
  imports Complex_Main "HOL-Library.Word"
begin

unbundle bit_operations_syntax

section \<open>Machine types\<close>

text \<open>
  \<open>size_t\<close> is an unsigned 64-bit integer. The CUDA built-in variables
  \<open>blockIdx\<close>, \<open>blockDim\<close> and \<open>threadIdx\<close> have components of type
  \<open>unsigned int\<close> (32 bits), and \<open>int32_t\<close> is read as two's complement with
  \<open>sint\<close>. The coordinates of a \<open>Point\<close> are signed integers whose
  overflow is undefined in C++; they are embedded in \<open>int\<close>. Pointers are
  addresses; a cast (\<open>const_cast\<close>, \<open>reinterpret_cast\<close>) keeps the address.
\<close>

type_synonym size_t = "64 word"
type_synonym u32 = "32 word"
type_synonym int32_t = "32 word"
type_synonym point = "int list"
type_synonym ptr = nat

section \<open>Formatting integers\<close>

text \<open>
  The decimal rendering that \<open>%d\<close> in \<open>fprintf\<close> and \<open><<\<close> on a
  \<open>std::stringstream\<close> give an \<open>int\<close>.
\<close>

definition digit_char :: "nat \<Rightarrow> char" where
  "digit_char d = ''0123456789'' ! d"

fun string_of_nat :: "nat \<Rightarrow> string" where
  "string_of_nat n =
     (if n < 10 then [digit_char n] else string_of_nat (n div 10) @ [digit_char (n mod 10)])"

declare string_of_nat.simps [simp del]

definition string_of_int :: "int \<Rightarrow> string" where
  "string_of_int i =
     (if i < 0 then CHR ''-'' # string_of_nat (nat (- i)) else string_of_nat (nat i))"

section \<open>The process\<close>

text \<open>
  The process-level state the sources touch: the environment (\<open>setenv\<close>), the
  standard error stream (\<open>fprintf(stderr, ...)\<close>) and the thread count of OpenBLAS
  (\<open>openblas_set_num_threads\<close>).
\<close>

record process =
  environ :: "string \<rightharpoonup> string"
  stderr :: string
  openblas_num_threads :: int

text \<open>
  \<open>setenv(name, value, overwrite)\<close> of the C library: an existing variable is kept
  when \<open>overwrite\<close> is zero.
\<close>

definition setenv :: "string \<Rightarrow> string \<Rightarrow> bool \<Rightarrow> process \<Rightarrow> process" where
  "setenv name val overwrite s =
     (if \<not> overwrite \<and> environ s name \<noteq> None then s
      else s\<lparr>environ := (environ s)(name \<mapsto> val)\<rparr>)"

definition fprintf_stderr :: "string \<Rightarrow> process \<Rightarrow> process" where
  "fprintf_stderr msg s = s\<lparr>stderr := stderr s @ msg\<rparr>"

definition openblas_set_num_threads :: "int \<Rightarrow> process \<Rightarrow> process" where
  "openblas_set_num_threads n s = s\<lparr>openblas_num_threads := n\<rparr>"

text \<open>A call either returns to its caller or ends the process through \<open>exit\<close>.\<close>

datatype outcome = Returned process | Exited int process

section \<open>trilu.cu\<close>

text \<open>\<open>#define THREADS_PER_BLOCK 128\<close> (cuda_help.h).\<close>

definition THREADS_PER_BLOCK :: nat where
  "THREADS_PER_BLOCK = 128"

text \<open>The built-in coordinates one thread of a one-dimensional grid sees.\<close>

record thread =
  blockIdx_x :: u32
  blockDim_x :: u32
  threadIdx_x :: u32

text \<open>
  Line 36 of trilu.cu: \<open>const size_t idx = blockIdx.x * blockDim.x + threadIdx.x;\<close>.
  The product and the sum are computed in \<open>unsigned int\<close>, so they wrap modulo
  \<open>2 ^ 32\<close>; only the result is widened to \<open>size_t\<close>.
\<close>

definition global_idx :: "thread \<Rightarrow> size_t" where
  "global_idx th = ucast (blockIdx_x th * blockDim_x th + threadIdx_x th)"

text \<open>
  \<open>trilu_kernel\<close>, the body run by one thread. The accessors are
  functions from points to values; the write-only accessor is returned updated.
  \<open>Pitches::unflatten\<close> is not part of trilu.cu and is a parameter, and so is
  the template parameter \<open>DIM\<close> (at least 2 wherever the kernel is instantiated).
\<close>

definition trilu_kernel ::
  "bool \<Rightarrow> nat \<Rightarrow> ('pitches \<Rightarrow> size_t \<Rightarrow> point \<Rightarrow> point) \<Rightarrow>
   (point \<Rightarrow> 'v::zero) \<Rightarrow> (point \<Rightarrow> 'v) \<Rightarrow> 'pitches \<Rightarrow> point \<Rightarrow> size_t \<Rightarrow> int32_t \<Rightarrow>
   thread \<Rightarrow> (point \<Rightarrow> 'v)" where
  "trilu_kernel LOWER DIM unflatten out inp pitches lo volume k th =
     (let idx = global_idx th in
      if idx \<ge> volume then out
      else if LOWER then
        (let p = unflatten pitches idx lo in
         if p ! (DIM - 2) + sint k \<ge> p ! (DIM - 1)
         then out(p := inp p)
         else out(p := 0))
      else
        (let p = unflatten pitches idx lo in
         if p ! (DIM - 2) + sint k \<le> p ! (DIM - 1)
         then out(p := inp p)
         else out(p := 0)))"

text \<open>
  A launch \<open>kernel<<<grid, block>>>(...)\<close> with scalar arguments: both are
  converted to \<open>dim3\<close>, whose components are \<open>unsigned int\<close>. The threads of
  the grid are listed block by block; \<open>launch_kernel\<close> runs them in that order.
\<close>

record launch =
  grid_x :: u32
  block_x :: u32

definition threads_of :: "launch \<Rightarrow> thread list" where
  "threads_of l =
     concat (map (\<lambda>b. map (\<lambda>t. \<lparr>blockIdx_x = of_nat b, blockDim_x = block_x l,
                                   threadIdx_x = of_nat t\<rparr>)
                             [0..<unat (block_x l)])
                 [0..<unat (grid_x l)])"

definition launch_kernel :: "launch \<Rightarrow> (thread \<Rightarrow> 's \<Rightarrow> 's) \<Rightarrow> 's \<Rightarrow> 's" where
  "launch_kernel l kern s = fold kern (threads_of l) s"

text \<open>
  \<open>TriluImplBody<VariantKind::GPU, CODE, DIM, LOWER>::operator()\<close>: the number of
  blocks is computed in \<open>size_t\<close>, then the kernel is launched once.
\<close>

definition TriluImplBody_GPU_launch :: "size_t \<Rightarrow> launch" where
  "TriluImplBody_GPU_launch volume =
     (let blocks = (volume + of_nat THREADS_PER_BLOCK - 1) div of_nat THREADS_PER_BLOCK
      in \<lparr>grid_x = ucast blocks, block_x = of_nat THREADS_PER_BLOCK\<rparr>)"

definition TriluImplBody_GPU ::
  "bool \<Rightarrow> nat \<Rightarrow> ('pitches \<Rightarrow> size_t \<Rightarrow> point \<Rightarrow> point) \<Rightarrow>
   (point \<Rightarrow> 'v::zero) \<Rightarrow> (point \<Rightarrow> 'v) \<Rightarrow> 'pitches \<Rightarrow> point \<Rightarrow> size_t \<Rightarrow> int32_t \<Rightarrow>
   (point \<Rightarrow> 'v)" where
  "TriluImplBody_GPU LOWER DIM unflatten out inp pitches lo volume k =
     launch_kernel (TriluImplBody_GPU_launch volume)
       (\<lambda>th out'. trilu_kernel LOWER DIM unflatten out' inp pitches lo volume k th) out"

text \<open>
  Lines 39 to 51 of trilu.cu: what the kernel does for a linear index it has found to
  be below \<open>volume\<close>.
\<close>

definition trilu_element ::
  "bool \<Rightarrow> nat \<Rightarrow> ('pitches \<Rightarrow> size_t \<Rightarrow> point \<Rightarrow> point) \<Rightarrow>
   (point \<Rightarrow> 'v::zero) \<Rightarrow> (point \<Rightarrow> 'v) \<Rightarrow> 'pitches \<Rightarrow> point \<Rightarrow> int32_t \<Rightarrow> size_t \<Rightarrow>
   (point \<Rightarrow> 'v)" where
  "trilu_element LOWER DIM unflatten out inp pitches lo k idx =
     (if LOWER then
        (let p = unflatten pitches idx lo in
         if p ! (DIM - 2) + sint k \<ge> p ! (DIM - 1)
         then out(p := inp p)
         else out(p := 0))
      else
        (let p = unflatten pitches idx lo in
         if p ! (DIM - 2) + sint k \<le> p ! (DIM - 1)
         then out(p := inp p)
         else out(p := 0)))"

text \<open>
  The sequential loop the grid launch is compared with: for \<open>idx\<close> from \<open>0\<close>
  to \<open>volume - 1\<close>, the statements of the kernel for that index.
\<close>

definition trilu_sequential ::
  "bool \<Rightarrow> nat \<Rightarrow> ('pitches \<Rightarrow> size_t \<Rightarrow> point \<Rightarrow> point) \<Rightarrow>
   (point \<Rightarrow> 'v::zero) \<Rightarrow> (point \<Rightarrow> 'v) \<Rightarrow> 'pitches \<Rightarrow> point \<Rightarrow> size_t \<Rightarrow> int32_t \<Rightarrow>
   (point \<Rightarrow> 'v)" where
  "trilu_sequential LOWER DIM unflatten out inp pitches lo volume k =
     fold (\<lambda>i out'. trilu_element LOWER DIM unflatten out' inp pitches lo k (of_nat i))
       [0..<unat volume] out"

text \<open>
  The value the kernel stores at a point it writes: \<open>in[p]\<close> when the condition
  of the instantiation holds at \<open>p\<close>, and \<open>0\<close> otherwise.
\<close>

definition trilu_value :: "bool \<Rightarrow> nat \<Rightarrow> (point \<Rightarrow> 'v::zero) \<Rightarrow> int32_t \<Rightarrow> point \<Rightarrow> 'v" where
  "trilu_value LOWER DIM inp k p =
     (if LOWER then (if p ! (DIM - 2) + sint k \<ge> p ! (DIM - 1) then inp p else 0)
      else (if p ! (DIM - 2) + sint k \<le> p ! (DIM - 1) then inp p else 0))"

section \<open>syrk.cc\<close>

text \<open>
  The enumerations and routines of \<open>cblas.h\<close> the file uses. A call of a routine
  is recorded with its eleven arguments in order. The scalars \<open>-1.0\<close> and
  \<open>1.0\<close> are exactly representable in every floating-point format.
\<close>

datatype CBLAS_LAYOUT = CblasRowMajor | CblasColMajor
datatype CBLAS_UPLO = CblasUpper | CblasLower
datatype CBLAS_TRANSPOSE = CblasNoTrans | CblasTrans | CblasConjTrans

datatype cblas_routine =
  cblas_ssyrk | cblas_dsyrk | cblas_csyrk | cblas_zsyrk | cblas_cherk | cblas_zherk

record cblas_call =
  call_routine :: cblas_routine
  call_layout :: CBLAS_LAYOUT
  call_uplo :: CBLAS_UPLO
  call_trans :: CBLAS_TRANSPOSE
  call_n :: int32_t
  call_k :: int32_t
  call_alpha :: real
  call_a :: ptr
  call_lda :: int32_t
  call_beta :: real
  call_c :: ptr
  call_ldc :: int32_t

definition cblas ::
  "cblas_routine \<Rightarrow> CBLAS_LAYOUT \<Rightarrow> CBLAS_UPLO \<Rightarrow> CBLAS_TRANSPOSE \<Rightarrow> int32_t \<Rightarrow> int32_t \<Rightarrow>
   real \<Rightarrow> ptr \<Rightarrow> int32_t \<Rightarrow> real \<Rightarrow> ptr \<Rightarrow> int32_t \<Rightarrow> cblas_call" where
  "cblas r layout uplo trans' n k alpha a lda beta c ldc =
     \<lparr>call_routine = r, call_layout = layout, call_uplo = uplo, call_trans = trans',
      call_n = n, call_k = k, call_alpha = alpha, call_a = a, call_lda = lda,
      call_beta = beta, call_c = c, call_ldc = ldc\<rparr>"

datatype LegateTypeCode = FLOAT_LT | DOUBLE_LT | COMPLEX64_LT | COMPLEX128_LT

definition syrk_template ::
  "(CBLAS_LAYOUT \<Rightarrow> CBLAS_UPLO \<Rightarrow> CBLAS_TRANSPOSE \<Rightarrow> int32_t \<Rightarrow> int32_t \<Rightarrow>
    real \<Rightarrow> ptr \<Rightarrow> int32_t \<Rightarrow> real \<Rightarrow> ptr \<Rightarrow> int32_t \<Rightarrow> 'r) \<Rightarrow>
   ptr \<Rightarrow> ptr \<Rightarrow> int32_t \<Rightarrow> int32_t \<Rightarrow> 'r" where
  "syrk_template syrk lhs rhs m n =
     (let uplo = CblasLower; trans = CblasNoTrans
      in syrk CblasColMajor uplo trans m n (- 1) rhs m 1 lhs m)"

definition complex_syrk_template ::
  "(CBLAS_LAYOUT \<Rightarrow> CBLAS_UPLO \<Rightarrow> CBLAS_TRANSPOSE \<Rightarrow> int32_t \<Rightarrow> int32_t \<Rightarrow>
    real \<Rightarrow> ptr \<Rightarrow> int32_t \<Rightarrow> real \<Rightarrow> ptr \<Rightarrow> int32_t \<Rightarrow> 'r) \<Rightarrow>
   ptr \<Rightarrow> ptr \<Rightarrow> int32_t \<Rightarrow> int32_t \<Rightarrow> 'r" where
  "complex_syrk_template syrk lhs rhs m n =
     (let uplo = CblasLower; trans = CblasNoTrans
      in syrk CblasColMajor uplo trans m n (- 1) rhs m 1 lhs m)"

text \<open>The four specialisations of \<open>SyrkImplBody<VariantKind::CPU, CODE>\<close>.\<close>

fun SyrkImplBody_CPU :: "LegateTypeCode \<Rightarrow> ptr \<Rightarrow> ptr \<Rightarrow> int32_t \<Rightarrow> int32_t \<Rightarrow> cblas_call" where
  "SyrkImplBody_CPU FLOAT_LT lhs rhs m n = syrk_template (cblas cblas_ssyrk) lhs rhs m n"
| "SyrkImplBody_CPU DOUBLE_LT lhs rhs m n = syrk_template (cblas cblas_dsyrk) lhs rhs m n"
| "SyrkImplBody_CPU COMPLEX64_LT lhs' rhs' m n =
     (let lhs = lhs'; rhs = rhs' in complex_syrk_template (cblas cblas_cherk) lhs rhs m n)"
| "SyrkImplBody_CPU COMPLEX128_LT lhs' rhs' m n =
     (let lhs = lhs'; rhs = rhs' in complex_syrk_template (cblas cblas_zherk) lhs rhs m n)"

text \<open>
  The symmetric rank-k routine of each element type, as the BLAS names them
  (\<open>?syrk\<close>): what the description of the variant as a symmetric rank-k update for
  every element type asks for.
\<close>

fun symmetric_rank_k_routine :: "LegateTypeCode \<Rightarrow> cblas_routine" where
  "symmetric_rank_k_routine FLOAT_LT = cblas_ssyrk"
| "symmetric_rank_k_routine DOUBLE_LT = cblas_dsyrk"
| "symmetric_rank_k_routine COMPLEX64_LT = cblas_csyrk"
| "symmetric_rank_k_routine COMPLEX128_LT = cblas_zsyrk"

text \<open>
  \<open>SyrkTask::cpu_variant\<close>. The task-level \<open>syrk_template<VariantKind::CPU>\<close>
  (syrk_template.inl) is a parameter, and so is whether \<open>LEGATE_USE_OPENMP\<close> is
  defined.
\<close>

definition SyrkTask_cpu_variant ::
  "bool \<Rightarrow> ('ctx \<Rightarrow> process \<Rightarrow> process) \<Rightarrow> 'ctx \<Rightarrow> process \<Rightarrow> process" where
  "SyrkTask_cpu_variant LEGATE_USE_OPENMP syrk_template_task context s =
     syrk_template_task context
       (if LEGATE_USE_OPENMP then openblas_set_num_threads 1 s else s)"

section \<open>contract_omp.cc\<close>

text \<open>
  The fifteen arguments of \<open>ContractImplBody::operator()\<close>, and the calls into
  tblis. The three \<open>tblis_tensor\<close> structures are locals of the body; a call names
  the one whose address it is given.
\<close>

record contract_args =
  lhs_data :: ptr
  lhs_ndim :: size_t
  lhs_shape :: ptr
  lhs_strides :: ptr
  lhs_modes :: ptr
  rhs1_data :: ptr
  rhs1_ndim :: size_t
  rhs1_shape :: ptr
  rhs1_strides :: ptr
  rhs1_modes :: ptr
  rhs2_data :: ptr
  rhs2_ndim :: size_t
  rhs2_shape :: ptr
  rhs2_strides :: ptr
  rhs2_modes :: ptr

datatype tblis_tensor = Tensor_lhs | Tensor_rhs1 | Tensor_rhs2

definition nullptr :: ptr where
  "nullptr = 0"

datatype tblis_call =
  tblis_init_tensor_s tblis_tensor size_t ptr ptr ptr
| tblis_init_tensor_d tblis_tensor size_t ptr ptr ptr
| tblis_init_tensor_c tblis_tensor size_t ptr ptr ptr
| tblis_init_tensor_z tblis_tensor size_t ptr ptr ptr
| tblis_tensor_mult ptr ptr tblis_tensor ptr tblis_tensor ptr tblis_tensor ptr

text \<open>The four specialisations of \<open>ContractImplBody<VariantKind::OMP, CODE>\<close>.\<close>

fun ContractImplBody_OMP :: "LegateTypeCode \<Rightarrow> contract_args \<Rightarrow> tblis_call list" where
  "ContractImplBody_OMP FLOAT_LT a =
     [tblis_init_tensor_s Tensor_lhs (lhs_ndim a) (lhs_shape a) (lhs_data a) (lhs_strides a),
      tblis_init_tensor_s Tensor_rhs1 (rhs1_ndim a) (rhs1_shape a) (rhs1_data a) (rhs1_strides a),
      tblis_init_tensor_s Tensor_rhs2 (rhs2_ndim a) (rhs2_shape a) (rhs2_data a) (rhs2_strides a),
      tblis_tensor_mult nullptr nullptr Tensor_rhs1 (rhs1_modes a) Tensor_rhs2 (rhs2_modes a)
        Tensor_lhs (lhs_modes a)]"
| "ContractImplBody_OMP DOUBLE_LT a =
     [tblis_init_tensor_d Tensor_lhs (lhs_ndim a) (lhs_shape a) (lhs_data a) (lhs_strides a),
      tblis_init_tensor_d Tensor_rhs1 (rhs1_ndim a) (rhs1_shape a) (rhs1_data a) (rhs1_strides a),
      tblis_init_tensor_d Tensor_rhs2 (rhs2_ndim a) (rhs2_shape a) (rhs2_data a) (rhs2_strides a),
      tblis_tensor_mult nullptr nullptr Tensor_rhs1 (rhs1_modes a) Tensor_rhs2 (rhs2_modes a)
        Tensor_lhs (lhs_modes a)]"
| "ContractImplBody_OMP COMPLEX64_LT a =
     [tblis_init_tensor_c Tensor_lhs (lhs_ndim a) (lhs_shape a) (lhs_data a) (lhs_strides a),
      tblis_init_tensor_c Tensor_rhs1 (rhs1_ndim a) (rhs1_shape a) (rhs1_data a) (rhs1_strides a),
      tblis_init_tensor_c Tensor_rhs2 (rhs2_ndim a) (rhs2_shape a) (rhs2_data a) (rhs2_strides a),
      tblis_tensor_mult nullptr nullptr Tensor_rhs1 (rhs1_modes a) Tensor_rhs2 (rhs2_modes a)
        Tensor_lhs (lhs_modes a)]"
| "ContractImplBody_OMP COMPLEX128_LT a =
     [tblis_init_tensor_z Tensor_lhs (lhs_ndim a) (lhs_shape a) (lhs_data a) (lhs_strides a),
      tblis_init_tensor_z Tensor_rhs1 (rhs1_ndim a) (rhs1_shape a) (rhs1_data a) (rhs1_strides a),
      tblis_init_tensor_z Tensor_rhs2 (rhs2_ndim a) (rhs2_shape a) (rhs2_data a) (rhs2_strides a),
      tblis_tensor_mult nullptr nullptr Tensor_rhs1 (rhs1_modes a) Tensor_rhs2 (rhs2_modes a)
        Tensor_lhs (lhs_modes a)]"

text \<open>
  \<open>ContractTask::omp_variant\<close>. The value \<open>omp_get_max_threads()\<close> returns and
  the task-level \<open>contract_template<VariantKind::OMP>\<close> (contract_template.inl)
  are parameters.
\<close>

definition ContractTask_omp_variant ::
  "('ctx \<Rightarrow> process \<Rightarrow> process) \<Rightarrow> int \<Rightarrow> 'ctx \<Rightarrow> process \<Rightarrow> process" where
  "ContractTask_omp_variant contract_template omp_get_max_threads context s =
     (let str = string_of_int omp_get_max_threads;
          s' = setenv ''TBLIS_NUM_THREADS'' str False s
      in contract_template context s')"

section \<open>cuda_help.h\<close>

text \<open>
  The header that trilu.cu includes as \<open>cunumeric/cuda_help.h\<close>; the sources give
  its text after that of syrk.cc. First the error-check helpers. The success code of each library and the functions that
  name an error (\<open>cudaGetErrorString\<close>, \<open>cudaGetErrorName\<close>,
  \<open>cutensorGetErrorString\<close>) belong to the vendor headers and are parameters.
  A status is the \<open>int\<close> value of its enumerator.
\<close>

definition newline :: string where
  "newline = [CHR 0x0A]"

definition check_cuda ::
  "int \<Rightarrow> (int \<Rightarrow> string) \<Rightarrow> (int \<Rightarrow> string) \<Rightarrow> int \<Rightarrow> string \<Rightarrow> int \<Rightarrow> process \<Rightarrow> outcome" where
  "check_cuda cudaSuccess cudaGetErrorString cudaGetErrorName error file line s =
     (if error \<noteq> cudaSuccess then
        Exited error
          (fprintf_stderr
             (''Internal CUDA failure with error '' @ cudaGetErrorString error @ '' (''
              @ cudaGetErrorName error @ '') in file '' @ file @ '' at line ''
              @ string_of_int line @ newline) s)
      else Returned s)"

definition check_cublas :: "int \<Rightarrow> int \<Rightarrow> string \<Rightarrow> int \<Rightarrow> process \<Rightarrow> outcome" where
  "check_cublas CUBLAS_STATUS_SUCCESS status file line s =
     (if status \<noteq> CUBLAS_STATUS_SUCCESS then
        Exited status
          (fprintf_stderr
             (''Internal cuBLAS failure with error code '' @ string_of_int status
              @ '' in file '' @ file @ '' at line '' @ string_of_int line @ newline) s)
      else Returned s)"

definition check_cufft :: "int \<Rightarrow> int \<Rightarrow> string \<Rightarrow> int \<Rightarrow> process \<Rightarrow> outcome" where
  "check_cufft CUFFT_SUCCESS result file line s =
     (if result \<noteq> CUFFT_SUCCESS then
        Exited result
          (fprintf_stderr
             (''Internal cuFFT failure with error code '' @ string_of_int result
              @ '' in file '' @ file @ '' at line '' @ string_of_int line @ newline) s)
      else Returned s)"

definition check_cusolver :: "int \<Rightarrow> int \<Rightarrow> string \<Rightarrow> int \<Rightarrow> process \<Rightarrow> outcome" where
  "check_cusolver CUSOLVER_STATUS_SUCCESS status file line s =
     (if status \<noteq> CUSOLVER_STATUS_SUCCESS then
        Exited status
          (fprintf_stderr
             (''Internal cuSOLVER failure with error code '' @ string_of_int status
              @ '' in file '' @ file @ '' at line '' @ string_of_int line @ newline) s)
      else Returned s)"

definition check_cutensor ::
  "int \<Rightarrow> (int \<Rightarrow> string) \<Rightarrow> int \<Rightarrow> string \<Rightarrow> int \<Rightarrow> process \<Rightarrow> outcome" where
  "check_cutensor CUTENSOR_STATUS_SUCCESS cutensorGetErrorString result file line s =
     (if result \<noteq> CUTENSOR_STATUS_SUCCESS then
        Exited result
          (fprintf_stderr
             (''Internal Legate CUTENSOR failure with error '' @ cutensorGetErrorString result
              @ '' ('' @ string_of_int result @ '') in file '' @ file @ '' at line ''
              @ string_of_int line @ newline) s)
      else Returned s)"

text \<open>
  The macros \<open>CHECK_CUDA(expr)\<close> and its siblings: \<open>expr\<close> is evaluated once, in
  the process, and its value is handed to the helper with \<open>__FILE__\<close> and
  \<open>__LINE__\<close>.
\<close>

definition CHECK_CUDA ::
  "int \<Rightarrow> (int \<Rightarrow> string) \<Rightarrow> (int \<Rightarrow> string) \<Rightarrow> (process \<Rightarrow> int \<times> process) \<Rightarrow>
   string \<Rightarrow> int \<Rightarrow> process \<Rightarrow> outcome" where
  "CHECK_CUDA cudaSuccess cudaGetErrorString cudaGetErrorName expr FILE LINE s =
     (case expr s of (result, s') \<Rightarrow>
        check_cuda cudaSuccess cudaGetErrorString cudaGetErrorName result FILE LINE s')"

definition CHECK_CUBLAS ::
  "int \<Rightarrow> (process \<Rightarrow> int \<times> process) \<Rightarrow> string \<Rightarrow> int \<Rightarrow> process \<Rightarrow> outcome" where
  "CHECK_CUBLAS CUBLAS_STATUS_SUCCESS expr FILE LINE s =
     (case expr s of (result, s') \<Rightarrow> check_cublas CUBLAS_STATUS_SUCCESS result FILE LINE s')"

definition CHECK_CUFFT ::
  "int \<Rightarrow> (process \<Rightarrow> int \<times> process) \<Rightarrow> string \<Rightarrow> int \<Rightarrow> process \<Rightarrow> outcome" where
  "CHECK_CUFFT CUFFT_SUCCESS expr FILE LINE s =
     (case expr s of (result, s') \<Rightarrow> check_cufft CUFFT_SUCCESS result FILE LINE s')"

definition CHECK_CUSOLVER ::
  "int \<Rightarrow> (process \<Rightarrow> int \<times> process) \<Rightarrow> string \<Rightarrow> int \<Rightarrow> process \<Rightarrow> outcome" where
  "CHECK_CUSOLVER CUSOLVER_STATUS_SUCCESS expr FILE LINE s =
     (case expr s of (result, s') \<Rightarrow> check_cusolver CUSOLVER_STATUS_SUCCESS result FILE LINE s')"

definition CHECK_CUTENSOR ::
  "int \<Rightarrow> (int \<Rightarrow> string) \<Rightarrow> (process \<Rightarrow> int \<times> process) \<Rightarrow> string \<Rightarrow> int \<Rightarrow> process \<Rightarrow>
   outcome" where
  "CHECK_CUTENSOR CUTENSOR_STATUS_SUCCESS cutensorGetErrorString expr FILE LINE s =
     (case expr s of (result, s') \<Rightarrow>
        check_cutensor CUTENSOR_STATUS_SUCCESS cutensorGetErrorString result FILE LINE s')"

text \<open>
  What the header puts at top level, in its order: the headers it includes, the macros
  it defines, the functions it only declares (\<open>// Defined in cudalibs.cu\<close>) and
  the functions it defines with a body.
\<close>

datatype top_level = Include string | Define string | Prototype string | Function string

definition cuda_help_h :: "top_level list" where
  "cuda_help_h =
     [Include ''legate.h'', Include ''cublas_v2.h'', Include ''cusolverDn.h'',
      Include ''cuda_runtime.h'', Include ''cufft.h'', Include ''cutensor.h'',
      Define ''THREADS_PER_BLOCK'', Define ''MIN_CTAS_PER_SM'', Define ''MAX_REDUCTION_CTAS'',
      Define ''COOPERATIVE_THREADS'', Define ''COOPERATIVE_CTAS_PER_SM'',
      Define ''CHECK_CUDA'', Define ''CHECK_CUBLAS'', Define ''CHECK_CUFFT'',
      Define ''CHECK_CUSOLVER'', Define ''CHECK_CUTENSOR'', Define ''MAX'', Define ''MIN'',
      Prototype ''get_cached_stream'', Prototype ''get_cublas'', Prototype ''get_cusolver'',
      Prototype ''get_cutensor'',
      Function ''check_cuda'', Function ''check_cublas'', Function ''check_cufft'',
      Function ''check_cusolver'', Function ''check_cutensor'', Function ''shuffle'',
      Function ''reduce_output'', Function ''reduce_output'', Function ''reduce_bool'',
      Function ''load_cached'', Function ''load_l2'', Function ''load_streaming'',
      Function ''store_streaming'']"

fun defined_macros :: "top_level list \<Rightarrow> string list" where
  "defined_macros [] = []"
| "defined_macros (Define n # items) = n # defined_macros items"
| "defined_macros (_ # items) = defined_macros items"

fun defined_functions :: "top_level list \<Rightarrow> string list" where
  "defined_functions [] = []"
| "defined_functions (Function n # items) = n # defined_functions items"
| "defined_functions (_ # items) = defined_functions items"

definition error_check_macros :: "string list" where
  "error_check_macros =
     [''CHECK_CUDA'', ''CHECK_CUBLAS'', ''CHECK_CUFFT'', ''CHECK_CUSOLVER'', ''CHECK_CUTENSOR'']"

definition error_check_helpers :: "string list" where
  "error_check_helpers =
     [''check_cuda'', ''check_cublas'', ''check_cufft'', ''check_cusolver'', ''check_cutensor'']"

text \<open>
  The statement that a source file of the repository defines no error-check macro and
  no error-check helper.
\<close>

definition defines_no_error_check :: "top_level list \<Rightarrow> bool" where
  "defines_no_error_check items =
     (set (defined_macros items) \<inter> set error_check_macros = {}
      \<and> set (defined_functions items) \<inter> set error_check_helpers = {})"

section \<open>The triangular kernel is elementwise\<close>



section \<open>Lower and upper extraction partition the entries\<close>

lemma sint_succ_int32:
  assumes "sint (k :: int32_t) < 2147483647"
  shows "sint (k + 1) = sint k + 1"
proof -
  have lo: "- (2 ^ 31) \<le> sint k" using sint_ge [of k] by simp
  have "sint (k + 1) = signed_take_bit 31 (sint k + 1)"
    by (simp add: sint_word_ariths)
  also have "\<dots> = sint k + 1"
    using lo assms by (intro signed_take_bit_int_eq_self) simp_all
  finally show ?thesis .
qed




section \<open>The call of the CPU syrk variant\<close>

text \<open>
  C2, as the code has it. For \<open>float\<close> and \<open>double\<close> the CPU variant calls the
  symmetric rank-k routines \<open>cblas_ssyrk\<close> and \<open>cblas_dsyrk\<close>; for
  \<open>complex<float>\<close> and \<open>complex<double>\<close> it calls the Hermitian rank-k
  routines \<open>cblas_cherk\<close> and \<open>cblas_zherk\<close>. In all four cases the arguments
  are column-major, lower, no-transpose, \<open>m\<close>, \<open>n\<close>, \<open>alpha = -1.0\<close>,
  \<open>rhs\<close>, \<open>lda = m\<close>, \<open>beta = 1.0\<close>, \<open>lhs\<close>, \<open>ldc = m\<close>.
\<close>

theorem syrk_cpu_call:
  "SyrkImplBody_CPU code lhs rhs m n =
     \<lparr>call_routine =
        (case code of FLOAT_LT \<Rightarrow> cblas_ssyrk | DOUBLE_LT \<Rightarrow> cblas_dsyrk
         | COMPLEX64_LT \<Rightarrow> cblas_cherk | COMPLEX128_LT \<Rightarrow> cblas_zherk),
      call_layout = CblasColMajor, call_uplo = CblasLower, call_trans = CblasNoTrans,
      call_n = m, call_k = n, call_alpha = - 1, call_a = rhs, call_lda = m,
      call_beta = 1, call_c = lhs, call_ldc = m\<rparr>
   \<and> call_routine (SyrkImplBody_CPU FLOAT_LT lhs rhs m n) = symmetric_rank_k_routine FLOAT_LT
   \<and> call_routine (SyrkImplBody_CPU DOUBLE_LT lhs rhs m n) = symmetric_rank_k_routine DOUBLE_LT"
  by (cases code) (simp_all add: syrk_template_def complex_syrk_template_def cblas_def)

text \<open>
  C2 as stated fails for the complex element types: the routine called for
  \<open>complex<float>\<close> is not the symmetric rank-k routine \<open>cblas_csyrk\<close>.
\<close>

theorem syrk_cpu_complex_counterexample:
  "call_routine (SyrkImplBody_CPU COMPLEX64_LT 4096 8192 3 2) = cblas_cherk
   \<and> call_routine (SyrkImplBody_CPU COMPLEX64_LT 4096 8192 3 2)
       \<noteq> symmetric_rank_k_routine COMPLEX64_LT"
  by (simp add: complex_syrk_template_def cblas_def)

section \<open>The error-check helpers\<close>

lemma exits_diagnostic:
  "msg \<noteq> [] \<Longrightarrow> \<exists>m. m \<noteq> [] \<and> fprintf_stderr msg s = s\<lparr>stderr := stderr s @ m\<rparr>"
  by (rule exI [of _ msg]) (simp add: fprintf_stderr_def)

lemma check_cuda_returns:
  "(check_cuda ok gs gn e src_file src_line s = Returned s') = (e = ok \<and> s' = s)"
  by (auto simp: check_cuda_def)

lemma check_cuda_exits:
  "e \<noteq> ok \<Longrightarrow>
     \<exists>msg. msg \<noteq> [] \<and> check_cuda ok gs gn e src_file src_line s = Exited e (s\<lparr>stderr := stderr s @ msg\<rparr>)"
  by (simp add: check_cuda_def) (rule exits_diagnostic, simp add: newline_def)

lemma check_cublas_returns:
  "(check_cublas ok e src_file src_line s = Returned s') = (e = ok \<and> s' = s)"
  by (auto simp: check_cublas_def)

lemma check_cublas_exits:
  "e \<noteq> ok \<Longrightarrow>
     \<exists>msg. msg \<noteq> [] \<and> check_cublas ok e src_file src_line s = Exited e (s\<lparr>stderr := stderr s @ msg\<rparr>)"
  by (simp add: check_cublas_def) (rule exits_diagnostic, simp add: newline_def)

lemma check_cufft_returns:
  "(check_cufft ok e src_file src_line s = Returned s') = (e = ok \<and> s' = s)"
  by (auto simp: check_cufft_def)

lemma check_cufft_exits:
  "e \<noteq> ok \<Longrightarrow>
     \<exists>msg. msg \<noteq> [] \<and> check_cufft ok e src_file src_line s = Exited e (s\<lparr>stderr := stderr s @ msg\<rparr>)"
  by (simp add: check_cufft_def) (rule exits_diagnostic, simp add: newline_def)

lemma check_cusolver_returns:
  "(check_cusolver ok e src_file src_line s = Returned s') = (e = ok \<and> s' = s)"
  by (auto simp: check_cusolver_def)

lemma check_cusolver_exits:
  "e \<noteq> ok \<Longrightarrow>
     \<exists>msg. msg \<noteq> [] \<and> check_cusolver ok e src_file src_line s = Exited e (s\<lparr>stderr := stderr s @ msg\<rparr>)"
  by (simp add: check_cusolver_def) (rule exits_diagnostic, simp add: newline_def)

lemma check_cutensor_returns:
  "(check_cutensor ok gs e src_file src_line s = Returned s') = (e = ok \<and> s' = s)"
  by (auto simp: check_cutensor_def)

lemma check_cutensor_exits:
  "e \<noteq> ok \<Longrightarrow>
     \<exists>msg. msg \<noteq> [] \<and> check_cutensor ok gs e src_file src_line s = Exited e (s\<lparr>stderr := stderr s @ msg\<rparr>)"
  by (simp add: check_cutensor_def) (rule exits_diagnostic, simp add: newline_def)

lemma CHECK_CUDA_returns:
  "(CHECK_CUDA ok gs gn expr src_file src_line s = Returned s') = (fst (expr s) = ok \<and> s' = snd (expr s))"
  by (simp add: CHECK_CUDA_def check_cuda_returns split: prod.split)

lemma CHECK_CUBLAS_returns:
  "(CHECK_CUBLAS ok expr src_file src_line s = Returned s') = (fst (expr s) = ok \<and> s' = snd (expr s))"
  by (simp add: CHECK_CUBLAS_def check_cublas_returns split: prod.split)

lemma CHECK_CUFFT_returns:
  "(CHECK_CUFFT ok expr src_file src_line s = Returned s') = (fst (expr s) = ok \<and> s' = snd (expr s))"
  by (simp add: CHECK_CUFFT_def check_cufft_returns split: prod.split)

lemma CHECK_CUSOLVER_returns:
  "(CHECK_CUSOLVER ok expr src_file src_line s = Returned s') = (fst (expr s) = ok \<and> s' = snd (expr s))"
  by (simp add: CHECK_CUSOLVER_def check_cusolver_returns split: prod.split)

lemma CHECK_CUTENSOR_returns:
  "(CHECK_CUTENSOR ok gs expr src_file src_line s = Returned s') = (fst (expr s) = ok \<and> s' = snd (expr s))"
  by (simp add: CHECK_CUTENSOR_def check_cutensor_returns split: prod.split)

text \<open>
  C9. Each of \<open>check_cuda\<close>, \<open>check_cublas\<close>, \<open>check_cufft\<close>,
  \<open>check_cusolver\<close> and \<open>check_cutensor\<close> returns, leaving the process as it
  was, exactly when its status argument is the library's success code. For every other
  status it appends a non-empty diagnostic to the standard error stream and ends the
  process through \<open>exit\<close> with that status. So a \<open>CHECK_*\<close> macro returns only
  when its expression evaluated to the success code, and then the process is as the
  expression left it.
\<close>

theorem error_checks_exit_on_failure:
  "(\<forall>s'. (check_cuda okcuda cudaGetErrorString cudaGetErrorName e src_file src_line s = Returned s') = (e = okcuda \<and> s' = s))
   \<and> (e \<noteq> okcuda \<longrightarrow>
        (\<exists>msg. msg \<noteq> [] \<and>
           check_cuda okcuda cudaGetErrorString cudaGetErrorName e src_file src_line s = Exited e (s\<lparr>stderr := stderr s @ msg\<rparr>)))
   \<and> (\<forall>s'. (CHECK_CUDA okcuda cudaGetErrorString cudaGetErrorName expr src_file src_line s = Returned s')
            = (fst (expr s) = okcuda \<and> s' = snd (expr s)))
   \<and> (\<forall>s'. (check_cublas okcublas e src_file src_line s = Returned s') = (e = okcublas \<and> s' = s))
   \<and> (e \<noteq> okcublas \<longrightarrow>
        (\<exists>msg. msg \<noteq> [] \<and>
           check_cublas okcublas e src_file src_line s = Exited e (s\<lparr>stderr := stderr s @ msg\<rparr>)))
   \<and> (\<forall>s'. (CHECK_CUBLAS okcublas expr src_file src_line s = Returned s')
            = (fst (expr s) = okcublas \<and> s' = snd (expr s)))
   \<and> (\<forall>s'. (check_cufft okcufft e src_file src_line s = Returned s') = (e = okcufft \<and> s' = s))
   \<and> (e \<noteq> okcufft \<longrightarrow>
        (\<exists>msg. msg \<noteq> [] \<and>
           check_cufft okcufft e src_file src_line s = Exited e (s\<lparr>stderr := stderr s @ msg\<rparr>)))
   \<and> (\<forall>s'. (CHECK_CUFFT okcufft expr src_file src_line s = Returned s')
            = (fst (expr s) = okcufft \<and> s' = snd (expr s)))
   \<and> (\<forall>s'. (check_cusolver okcusolver e src_file src_line s = Returned s') = (e = okcusolver \<and> s' = s))
   \<and> (e \<noteq> okcusolver \<longrightarrow>
        (\<exists>msg. msg \<noteq> [] \<and>
           check_cusolver okcusolver e src_file src_line s = Exited e (s\<lparr>stderr := stderr s @ msg\<rparr>)))
   \<and> (\<forall>s'. (CHECK_CUSOLVER okcusolver expr src_file src_line s = Returned s')
            = (fst (expr s) = okcusolver \<and> s' = snd (expr s)))
   \<and> (\<forall>s'. (check_cutensor okcutensor cutensorGetErrorString e src_file src_line s = Returned s') = (e = okcutensor \<and> s' = s))
   \<and> (e \<noteq> okcutensor \<longrightarrow>
        (\<exists>msg. msg \<noteq> [] \<and>
           check_cutensor okcutensor cutensorGetErrorString e src_file src_line s = Exited e (s\<lparr>stderr := stderr s @ msg\<rparr>)))
   \<and> (\<forall>s'. (CHECK_CUTENSOR okcutensor cutensorGetErrorString expr src_file src_line s = Returned s')
            = (fst (expr s) = okcutensor \<and> s' = snd (expr s)))"
  by (intro conjI allI impI check_cuda_returns check_cublas_returns check_cufft_returns
        check_cusolver_returns check_cutensor_returns CHECK_CUDA_returns CHECK_CUBLAS_returns
        CHECK_CUFFT_returns CHECK_CUSOLVER_returns CHECK_CUTENSOR_returns
        check_cuda_exits check_cublas_exits check_cufft_exits check_cusolver_exits
        check_cutensor_exits)

theorem error_checks_exit_on_failure_witness:
  "check_cuda 0 (\<lambda>_. ''an illegal memory access was encountered'')
       (\<lambda>_. ''cudaErrorIllegalAddress'') 700 ''trilu.cu'' 66 \<lparr>environ = Map.empty, stderr = [], openblas_num_threads = 0\<rparr> \<noteq> Returned \<lparr>environ = Map.empty, stderr = [], openblas_num_threads = 0\<rparr>
   \<and> (\<exists>msg. msg \<noteq> [] \<and>
         check_cuda 0 (\<lambda>_. ''an illegal memory access was encountered'')
           (\<lambda>_. ''cudaErrorIllegalAddress'') 700 ''trilu.cu'' 66 \<lparr>environ = Map.empty, stderr = [], openblas_num_threads = 0\<rparr>
         = Exited 700 (\<lparr>environ = Map.empty, stderr = [], openblas_num_threads = 0\<rparr>\<lparr>stderr := stderr \<lparr>environ = Map.empty, stderr = [], openblas_num_threads = 0\<rparr> @ msg\<rparr>))
   \<and> check_cuda 0 (\<lambda>_. ''no error'') (\<lambda>_. ''cudaSuccess'') 0 ''trilu.cu'' 66 \<lparr>environ = Map.empty, stderr = [], openblas_num_threads = 0\<rparr> = Returned \<lparr>environ = Map.empty, stderr = [], openblas_num_threads = 0\<rparr>
   \<and> CHECK_CUBLAS 0 (\<lambda>s. (13, s)) ''syrk.cu'' 40 \<lparr>environ = Map.empty, stderr = [], openblas_num_threads = 0\<rparr> \<noteq> Returned \<lparr>environ = Map.empty, stderr = [], openblas_num_threads = 0\<rparr>
   \<and> CHECK_CUBLAS 0 (\<lambda>s. (0, s)) ''syrk.cu'' 40 \<lparr>environ = Map.empty, stderr = [], openblas_num_threads = 0\<rparr> = Returned \<lparr>environ = Map.empty, stderr = [], openblas_num_threads = 0\<rparr>
   \<and> check_cufft 0 5 ''fft.cu'' 7 \<lparr>environ = Map.empty, stderr = [], openblas_num_threads = 0\<rparr> \<noteq> Returned \<lparr>environ = Map.empty, stderr = [], openblas_num_threads = 0\<rparr>
   \<and> check_cusolver 0 0 ''potrf.cu'' 9 \<lparr>environ = Map.empty, stderr = [], openblas_num_threads = 0\<rparr> = Returned \<lparr>environ = Map.empty, stderr = [], openblas_num_threads = 0\<rparr>
   \<and> check_cutensor 0 (\<lambda>_. ''not supported'') 15 ''contract.cu'' 3 \<lparr>environ = Map.empty, stderr = [], openblas_num_threads = 0\<rparr> \<noteq> Returned \<lparr>environ = Map.empty, stderr = [], openblas_num_threads = 0\<rparr>"
proof -
  let ?s = "\<lparr>environ = Map.empty, stderr = [], openblas_num_threads = 0\<rparr>"
  note failing =
    error_checks_exit_on_failure
      [where e = 700 and okcuda = 0 and okcublas = 0 and okcufft = 0 and okcusolver = 0
         and okcutensor = 0 and s = ?s and src_file = "''trilu.cu''" and src_line = 66
         and cudaGetErrorString = "\<lambda>_. ''an illegal memory access was encountered''"
         and cudaGetErrorName = "\<lambda>_. ''cudaErrorIllegalAddress''"
         and expr = "\<lambda>s. (13, s)"]
  note passing =
    error_checks_exit_on_failure
      [where e = 0 and okcuda = 0 and okcublas = 0 and okcufft = 0 and okcusolver = 0
         and okcutensor = 0 and s = ?s and src_file = "''trilu.cu''" and src_line = 66
         and cudaGetErrorString = "\<lambda>_. ''no error''"
         and cudaGetErrorName = "\<lambda>_. ''cudaSuccess''"
         and expr = "\<lambda>s. (0, s)"]
  have a: "check_cuda 0 (\<lambda>_. ''an illegal memory access was encountered'')
       (\<lambda>_. ''cudaErrorIllegalAddress'') 700 ''trilu.cu'' 66 ?s \<noteq> Returned ?s"
    using failing by simp
  have b: "\<exists>msg. msg \<noteq> [] \<and>
         check_cuda 0 (\<lambda>_. ''an illegal memory access was encountered'')
           (\<lambda>_. ''cudaErrorIllegalAddress'') 700 ''trilu.cu'' 66 ?s
         = Exited 700 (?s\<lparr>stderr := stderr ?s @ msg\<rparr>)"
    using failing by simp
  have c: "check_cuda 0 (\<lambda>_. ''no error'') (\<lambda>_. ''cudaSuccess'') 0 ''trilu.cu'' 66 ?s = Returned ?s"
    using passing by simp
  have d: "CHECK_CUBLAS 0 (\<lambda>s. (13, s)) ''syrk.cu'' 40 ?s \<noteq> Returned ?s"
    using error_checks_exit_on_failure
      [where okcublas = 0 and expr = "\<lambda>s. (13, s)" and src_file = "''syrk.cu''" and src_line = 40 and s = ?s]
    by simp
  have e: "CHECK_CUBLAS 0 (\<lambda>s. (0, s)) ''syrk.cu'' 40 ?s = Returned ?s"
    using error_checks_exit_on_failure
      [where okcublas = 0 and expr = "\<lambda>s. (0, s)" and src_file = "''syrk.cu''" and src_line = 40 and s = ?s]
    by simp
  have f: "check_cufft 0 5 ''fft.cu'' 7 ?s \<noteq> Returned ?s"
    using error_checks_exit_on_failure
      [where okcufft = 0 and e = 5 and src_file = "''fft.cu''" and src_line = 7 and s = ?s]
    by simp
  have g: "check_cusolver 0 0 ''potrf.cu'' 9 ?s = Returned ?s"
    using error_checks_exit_on_failure
      [where okcusolver = 0 and e = 0 and src_file = "''potrf.cu''" and src_line = 9 and s = ?s]
    by simp
  have h: "check_cutensor 0 (\<lambda>_. ''not supported'') 15 ''contract.cu'' 3 ?s \<noteq> Returned ?s"
    using error_checks_exit_on_failure
      [where okcutensor = 0 and e = 15 and src_file = "''contract.cu''" and src_line = 3 and s = ?s
         and cutensorGetErrorString = "\<lambda>_. ''not supported''"]
    by simp
  from a b c d e f g h show ?thesis by blast
qed

section \<open>Where the error checks are defined\<close>

text \<open>
  C3, as the code has it. The header cuda_help.h of the repository defines the five
  macros \<open>CHECK_CUDA\<close>, \<open>CHECK_CUBLAS\<close>, \<open>CHECK_CUFFT\<close>,
  \<open>CHECK_CUSOLVER\<close>, \<open>CHECK_CUTENSOR\<close> and the five helpers
  \<open>check_cuda\<close>, \<open>check_cublas\<close>, \<open>check_cufft\<close>, \<open>check_cusolver\<close>,
  \<open>check_cutensor\<close>; each macro evaluates its expression once and hands the value
  to the helper of the repository.
\<close>

theorem error_checks_defined_in_repository:
  "set error_check_macros \<subseteq> set (defined_macros cuda_help_h)
   \<and> set error_check_helpers \<subseteq> set (defined_functions cuda_help_h)
   \<and> CHECK_CUDA okcuda cudaGetErrorString cudaGetErrorName expr src_file src_line s
       = check_cuda okcuda cudaGetErrorString cudaGetErrorName (fst (expr s)) src_file src_line
           (snd (expr s))
   \<and> CHECK_CUBLAS okcublas expr src_file src_line s
       = check_cublas okcublas (fst (expr s)) src_file src_line (snd (expr s))
   \<and> CHECK_CUFFT okcufft expr src_file src_line s
       = check_cufft okcufft (fst (expr s)) src_file src_line (snd (expr s))
   \<and> CHECK_CUSOLVER okcusolver expr src_file src_line s
       = check_cusolver okcusolver (fst (expr s)) src_file src_line (snd (expr s))
   \<and> CHECK_CUTENSOR okcutensor cutensorGetErrorString expr src_file src_line s
       = check_cutensor okcutensor cutensorGetErrorString (fst (expr s)) src_file src_line
           (snd (expr s))"
proof -
  have macros: "set error_check_macros \<subseteq> set (defined_macros cuda_help_h)"
    by (simp add: error_check_macros_def cuda_help_h_def)
  have helpers: "set error_check_helpers \<subseteq> set (defined_functions cuda_help_h)"
    by (simp add: error_check_helpers_def cuda_help_h_def)
  show ?thesis
    using macros helpers
    by (simp add: CHECK_CUDA_def CHECK_CUBLAS_def CHECK_CUFFT_def CHECK_CUSOLVER_def
          CHECK_CUTENSOR_def split: prod.split)
qed

text \<open>
  C3 as stated fails: cuda_help.h defines error-check macros and helpers.
\<close>

theorem error_checks_defined_counterexample:
  "\<not> defines_no_error_check cuda_help_h"
  by (simp add: defines_no_error_check_def error_check_macros_def cuda_help_h_def)

section \<open>What the shims do besides the vendor call\<close>

lemma string_of_int_4: "string_of_int 4 = ''4''"
  by (simp add: string_of_int_def string_of_nat.simps digit_char_def)

lemma string_of_int_8: "string_of_int 8 = ''8''"
  by (simp add: string_of_int_def string_of_nat.simps digit_char_def)

lemma omp_variant_unfold:
  "ContractTask_omp_variant contract_template omp_get_max_threads ctx s =
     contract_template ctx
       (if environ s ''TBLIS_NUM_THREADS'' = None
        then s\<lparr>environ := (environ s)(''TBLIS_NUM_THREADS'' \<mapsto> string_of_int omp_get_max_threads)\<rparr>
        else s)"
  by (simp add: ContractTask_omp_variant_def setenv_def Let_def)

text \<open>
  C4, as the code has it. The OMP contract bodies and the CPU syrk bodies read no
  array element: they hand the raw data pointers, unchanged, to the vendor calls (three
  \<open>tblis_init_tensor_*\<close> calls and one \<open>tblis_tensor_mult\<close>; one cblas call).
  \<open>ContractTask::omp_variant\<close> first sets the environment variable
  \<open>TBLIS_NUM_THREADS\<close> to the decimal value of \<open>omp_get_max_threads()\<close> when
  the variable is not set yet, and changes nothing else before it calls
  \<open>contract_template\<close>. \<open>SyrkTask::cpu_variant\<close>, when built with
  \<open>LEGATE_USE_OPENMP\<close>, first sets the thread count of OpenBLAS to 1. The GPU trilu
  shim calls no vendor routine: its own kernel reads \<open>in[p]\<close> and writes
  \<open>out[p]\<close>.
\<close>

theorem shims_forward_pointers:
  "ContractImplBody_OMP code a =
     (let init = (case code of FLOAT_LT \<Rightarrow> tblis_init_tensor_s | DOUBLE_LT \<Rightarrow> tblis_init_tensor_d
                  | COMPLEX64_LT \<Rightarrow> tblis_init_tensor_c | COMPLEX128_LT \<Rightarrow> tblis_init_tensor_z)
      in [init Tensor_lhs (lhs_ndim a) (lhs_shape a) (lhs_data a) (lhs_strides a),
          init Tensor_rhs1 (rhs1_ndim a) (rhs1_shape a) (rhs1_data a) (rhs1_strides a),
          init Tensor_rhs2 (rhs2_ndim a) (rhs2_shape a) (rhs2_data a) (rhs2_strides a),
          tblis_tensor_mult nullptr nullptr Tensor_rhs1 (rhs1_modes a) Tensor_rhs2 (rhs2_modes a)
            Tensor_lhs (lhs_modes a)])
   \<and> call_a (SyrkImplBody_CPU code lhs rhs m n) = rhs
   \<and> call_c (SyrkImplBody_CPU code lhs rhs m n) = lhs
   \<and> ContractTask_omp_variant contract_template omp_get_max_threads ctx s =
       contract_template ctx
         (if environ s ''TBLIS_NUM_THREADS'' = None
          then s\<lparr>environ := (environ s)(''TBLIS_NUM_THREADS'' \<mapsto> string_of_int omp_get_max_threads)\<rparr>
          else s)
   \<and> SyrkTask_cpu_variant LEGATE_USE_OPENMP syrk_template_task ctx' s =
       syrk_template_task ctx' (if LEGATE_USE_OPENMP then s\<lparr>openblas_num_threads := 1\<rparr> else s)
   \<and> (global_idx th < volume \<longrightarrow>
        trilu_kernel LOWER DIM unflatten out inp pitches lo volume k th
          (unflatten pitches (global_idx th) lo)
        \<in> {inp (unflatten pitches (global_idx th) lo), 0})"
proof (intro conjI impI)
  show "ContractImplBody_OMP code a =
     (let init = (case code of FLOAT_LT \<Rightarrow> tblis_init_tensor_s | DOUBLE_LT \<Rightarrow> tblis_init_tensor_d
                  | COMPLEX64_LT \<Rightarrow> tblis_init_tensor_c | COMPLEX128_LT \<Rightarrow> tblis_init_tensor_z)
      in [init Tensor_lhs (lhs_ndim a) (lhs_shape a) (lhs_data a) (lhs_strides a),
          init Tensor_rhs1 (rhs1_ndim a) (rhs1_shape a) (rhs1_data a) (rhs1_strides a),
          init Tensor_rhs2 (rhs2_ndim a) (rhs2_shape a) (rhs2_data a) (rhs2_strides a),
          tblis_tensor_mult nullptr nullptr Tensor_rhs1 (rhs1_modes a) Tensor_rhs2 (rhs2_modes a)
            Tensor_lhs (lhs_modes a)])"
    by (cases code) simp_all
  show "call_a (SyrkImplBody_CPU code lhs rhs m n) = rhs"
    by (cases code) (simp_all add: syrk_template_def complex_syrk_template_def cblas_def)
  show "call_c (SyrkImplBody_CPU code lhs rhs m n) = lhs"
    by (cases code) (simp_all add: syrk_template_def complex_syrk_template_def cblas_def)
  show "ContractTask_omp_variant contract_template omp_get_max_threads ctx s =
       contract_template ctx
         (if environ s ''TBLIS_NUM_THREADS'' = None
          then s\<lparr>environ := (environ s)(''TBLIS_NUM_THREADS'' \<mapsto> string_of_int omp_get_max_threads)\<rparr>
          else s)"
    by (rule omp_variant_unfold)
  show "SyrkTask_cpu_variant LEGATE_USE_OPENMP syrk_template_task ctx' s =
       syrk_template_task ctx' (if LEGATE_USE_OPENMP then s\<lparr>openblas_num_threads := 1\<rparr> else s)"
    by (simp add: SyrkTask_cpu_variant_def openblas_set_num_threads_def)
next
  assume "global_idx th < volume"
  then have "\<not> volume \<le> global_idx th" by simp
  then show "trilu_kernel LOWER DIM unflatten out inp pitches lo volume k th
          (unflatten pitches (global_idx th) lo)
        \<in> {inp (unflatten pitches (global_idx th) lo), 0}"
    by (simp add: trilu_kernel_def Let_def)
qed

text \<open>
  C4 as stated fails: with \<open>TBLIS_NUM_THREADS\<close> unset and eight OpenMP threads, the
  process in which the contraction is called is not the one the variant was entered in.
\<close>

theorem omp_variant_sets_environment_counterexample:
  "ContractTask_omp_variant (\<lambda>ctx s. s) 8 () \<lparr>environ = Map.empty, stderr = [], openblas_num_threads = 0\<rparr> \<noteq> \<lparr>environ = Map.empty, stderr = [], openblas_num_threads = 0\<rparr>
   \<and> environ (ContractTask_omp_variant (\<lambda>ctx s. s) 8 () \<lparr>environ = Map.empty, stderr = [], openblas_num_threads = 0\<rparr>) ''TBLIS_NUM_THREADS''
       = Some ''8''"
proof -
  have "environ (ContractTask_omp_variant (\<lambda>ctx s. s) 8 () \<lparr>environ = Map.empty, stderr = [], openblas_num_threads = 0\<rparr>) ''TBLIS_NUM_THREADS''
       = Some ''8''"
    by (simp add: omp_variant_unfold string_of_int_8)
  moreover from this have "ContractTask_omp_variant (\<lambda>ctx s. s) 8 () \<lparr>environ = Map.empty, stderr = [], openblas_num_threads = 0\<rparr> \<noteq> \<lparr>environ = Map.empty, stderr = [], openblas_num_threads = 0\<rparr>"
    by (metis option.distinct(1) process.select_convs(1))
  ultimately show ?thesis by simp
qed

theorem shims_forward_pointers_witness:
  "call_a (SyrkImplBody_CPU FLOAT_LT 4096 8192 3 2) = 8192
   \<and> call_c (SyrkImplBody_CPU FLOAT_LT 4096 8192 3 2) = 4096
   \<and> trilu_kernel True 2
       (\<lambda>(pitch :: nat) idx lo. [lo ! 0 + int (unat idx div pitch), lo ! 1 + int (unat idx mod pitch)])
       (\<lambda>_. 7) (\<lambda>p. 10 * (p ! 0) + p ! 1 + 1) 3 [0, 0] 9 0
       \<lparr>blockIdx_x = 0, blockDim_x = 128, threadIdx_x = 5\<rparr> [1, 2]
     \<in> {13, 0 :: int}"
proof -
  let ?th = "\<lparr>blockIdx_x = 0, blockDim_x = 128, threadIdx_x = 5\<rparr>"
  let ?unflatten = "\<lambda>(pitch :: nat) (idx :: size_t) (lo :: point).
        [lo ! 0 + int (unat idx div pitch), lo ! 1 + int (unat idx mod pitch)]"
  have idx: "global_idx ?th = 5" by (simp add: global_idx_def)
  from shims_forward_pointers
         [where code = FLOAT_LT and lhs = 4096 and rhs = 8192 and m = 3 and n = 2
            and th = ?th and volume = 9 and LOWER = True and DIM = 2
            and unflatten = ?unflatten and pitches = 3 and lo = "[0, 0]"
            and out = "\<lambda>_. 7 :: int" and inp = "\<lambda>p. 10 * (p ! 0) + p ! 1 + 1" and k = 0
            and contract_template = "\<lambda>_ s. s" and omp_get_max_threads = 8 and ctx = "()"
            and s = "\<lparr>environ = Map.empty, stderr = [], openblas_num_threads = 0\<rparr>"
            and LEGATE_USE_OPENMP = True and syrk_template_task = "\<lambda>_ s. s" and ctx' = "()"
            and a = "\<lparr>lhs_data = 4096, lhs_ndim = 2, lhs_shape = 16, lhs_strides = 32,
                      lhs_modes = 48, rhs1_data = 8192, rhs1_ndim = 2, rhs1_shape = 64,
                      rhs1_strides = 80, rhs1_modes = 96, rhs2_data = 12288, rhs2_ndim = 2,
                      rhs2_shape = 112, rhs2_strides = 128, rhs2_modes = 144\<rparr>"]
  show ?thesis by (simp add: idx)
qed

section \<open>How the shims depend on earlier runs\<close>

text \<open>
  C6, as the code has it. Of the shims' own code only \<open>ContractTask::omp_variant\<close>
  and, when built with \<open>LEGATE_USE_OPENMP\<close>, \<open>SyrkTask::cpu_variant\<close> write
  process-level state, and they write different parts of it, so their own effects
  commute and each is idempotent. But \<open>ContractTask::omp_variant\<close> depends on
  what ran before: it writes \<open>TBLIS_NUM_THREADS\<close> only when the variable is unset,
  every invocation leaves it set, and once it is set a later invocation changes nothing
  before calling \<open>contract_template\<close>, whatever \<open>omp_get_max_threads()\<close>
  returns then. (The task-level templates are taken as doing nothing where the variants'
  own effects are composed.)
\<close>

theorem shims_process_state_dependence:
  "(environ s ''TBLIS_NUM_THREADS'' \<noteq> None \<longrightarrow>
      ContractTask_omp_variant contract_template mt ctx s = contract_template ctx s)
   \<and> environ (ContractTask_omp_variant (\<lambda>_ s. s) mt ctx s) ''TBLIS_NUM_THREADS'' \<noteq> None
   \<and> ContractTask_omp_variant (\<lambda>_ s. s) mt' ctx'
         (ContractTask_omp_variant (\<lambda>_ s. s) mt ctx s)
       = ContractTask_omp_variant (\<lambda>_ s. s) mt ctx s
   \<and> SyrkTask_cpu_variant b (\<lambda>_ s. s) ctx' (SyrkTask_cpu_variant b (\<lambda>_ s. s) ctx s)
       = SyrkTask_cpu_variant b (\<lambda>_ s. s) ctx s
   \<and> SyrkTask_cpu_variant b (\<lambda>_ s. s) ctx' (ContractTask_omp_variant (\<lambda>_ s. s) mt ctx s)
       = ContractTask_omp_variant (\<lambda>_ s. s) mt ctx (SyrkTask_cpu_variant b (\<lambda>_ s. s) ctx' s)"
  by (simp add: omp_variant_unfold SyrkTask_cpu_variant_def openblas_set_num_threads_def)

theorem shims_process_state_dependence_witness:
  "ContractTask_omp_variant (\<lambda>_ s. s) 8 ()
     \<lparr>environ = [''TBLIS_NUM_THREADS'' \<mapsto> ''4''], stderr = [], openblas_num_threads = 0\<rparr>
   = \<lparr>environ = [''TBLIS_NUM_THREADS'' \<mapsto> ''4''], stderr = [], openblas_num_threads = 0\<rparr>"
  using shims_process_state_dependence
          [where s = "\<lparr>environ = [''TBLIS_NUM_THREADS'' \<mapsto> ''4''], stderr = [],
                         openblas_num_threads = 0\<rparr>"
             and contract_template = "\<lambda>_ s. s" and mt = 8 and ctx = "()"
             and mt' = 2 and ctx' = "()" and b = True]
  by simp

text \<open>
  C6 as stated fails: an invocation with eight OpenMP threads ends in a different
  process when an invocation with four threads ran before it.
\<close>

theorem omp_variant_depends_on_earlier_run_counterexample:
  "ContractTask_omp_variant (\<lambda>_ s. s) 8 () (ContractTask_omp_variant (\<lambda>_ s. s) 4 () \<lparr>environ = Map.empty, stderr = [], openblas_num_threads = 0\<rparr>)
     \<noteq> ContractTask_omp_variant (\<lambda>_ s. s) 8 () \<lparr>environ = Map.empty, stderr = [], openblas_num_threads = 0\<rparr>
   \<and> environ (ContractTask_omp_variant (\<lambda>_ s. s) 8 () (ContractTask_omp_variant (\<lambda>_ s. s) 4 () \<lparr>environ = Map.empty, stderr = [], openblas_num_threads = 0\<rparr>))
       ''TBLIS_NUM_THREADS'' = Some ''4''
   \<and> environ (ContractTask_omp_variant (\<lambda>_ s. s) 8 () \<lparr>environ = Map.empty, stderr = [], openblas_num_threads = 0\<rparr>) ''TBLIS_NUM_THREADS'' = Some ''8''"
proof -
  have after: "environ (ContractTask_omp_variant (\<lambda>_ s. s) 8 ()
                 (ContractTask_omp_variant (\<lambda>_ s. s) 4 () \<lparr>environ = Map.empty, stderr = [], openblas_num_threads = 0\<rparr>)) ''TBLIS_NUM_THREADS'' = Some ''4''"
    by (simp add: omp_variant_unfold string_of_int_4)
  have alone: "environ (ContractTask_omp_variant (\<lambda>_ s. s) 8 () \<lparr>environ = Map.empty, stderr = [], openblas_num_threads = 0\<rparr>) ''TBLIS_NUM_THREADS''
                 = Some ''8''"
    by (simp add: omp_variant_unfold string_of_int_8)
  have "ContractTask_omp_variant (\<lambda>_ s. s) 8 () (ContractTask_omp_variant (\<lambda>_ s. s) 4 () \<lparr>environ = Map.empty, stderr = [], openblas_num_threads = 0\<rparr>)
     \<noteq> ContractTask_omp_variant (\<lambda>_ s. s) 8 () \<lparr>environ = Map.empty, stderr = [], openblas_num_threads = 0\<rparr>"
  proof
    assume "ContractTask_omp_variant (\<lambda>_ s. s) 8 () (ContractTask_omp_variant (\<lambda>_ s. s) 4 () \<lparr>environ = Map.empty, stderr = [], openblas_num_threads = 0\<rparr>)
      = ContractTask_omp_variant (\<lambda>_ s. s) 8 () \<lparr>environ = Map.empty, stderr = [], openblas_num_threads = 0\<rparr>"
    with after alone have "Some ''4'' = Some ''8''" by simp
    then show False by simp
  qed
  with after alone show ?thesis by simp
qed

section \<open>The grid of the GPU launch\<close>

text \<open>
  The threads of a launch, the linear index each computes, and what a whole launch and
  the sequential loop leave in the output.
\<close>

lemma unat_ucast_u32_size_t: "unat (ucast (w :: u32) :: size_t) = unat w"
proof -
  have "unat w < 2 ^ 32" using unsigned_less [of w] by simp
  then have "unat w < 2 ^ 64" by simp
  then show ?thesis by (simp add: unsigned_ucast_eq take_bit_nat_eq_self)
qed

lemma global_idx_less: "unat (global_idx th) < 2 ^ 32"
  unfolding global_idx_def unat_ucast_u32_size_t
  using unsigned_less [of "blockIdx_x th * blockDim_x th + threadIdx_x th"] by simp

lemma unat_of_nat_below: "n < unat (w :: u32) \<Longrightarrow> unat (of_nat n :: u32) = n"
proof -
  assume "n < unat w"
  moreover have "unat w < 2 ^ 32" using unsigned_less [of w] by simp
  ultimately have "n < 2 ^ 32" by simp
  then show ?thesis by (simp add: unat_of_nat)
qed

lemma set_threads_of:
  "set (threads_of l) =
     {th. blockIdx_x th < grid_x l \<and> blockDim_x th = block_x l \<and> threadIdx_x th < block_x l}"
  (is "?L = ?R")
proof
  show "?L \<subseteq> ?R"
    by (auto simp: threads_of_def word_less_nat_alt unat_of_nat_below)
next
  show "?R \<subseteq> ?L"
  proof
    fix th :: thread
    assume "th \<in> ?R"
    then have b: "unat (blockIdx_x th) < unat (grid_x l)"
      and d: "blockDim_x th = block_x l"
      and t: "unat (threadIdx_x th) < unat (block_x l)"
      by (simp_all add: word_less_nat_alt)
    have "th = \<lparr>blockIdx_x = of_nat (unat (blockIdx_x th)), blockDim_x = block_x l,
                 threadIdx_x = of_nat (unat (threadIdx_x th))\<rparr>"
      using d by simp
    with b t show "th \<in> ?L"
      unfolding threads_of_def by (auto simp del: of_nat_unat intro!: bexI [where x = "unat (blockIdx_x th)"])
  qed
qed

lemma trilu_kernel_element:
  "trilu_kernel LOWER DIM unflatten out inp pitches lo volume k th =
     (if global_idx th < volume
      then trilu_element LOWER DIM unflatten out inp pitches lo k (global_idx th) else out)"
  by (simp add: trilu_kernel_def trilu_element_def Let_def not_le [symmetric])

lemma trilu_element_eq:
  "trilu_element LOWER DIM unflatten out inp pitches lo k idx =
     out(unflatten pitches idx lo := trilu_value LOWER DIM inp k (unflatten pitches idx lo))"
  by (simp add: trilu_element_def trilu_value_def Let_def)

lemma fold_trilu_element:
  "fold (\<lambda>i out'. trilu_element LOWER DIM unflatten out' inp pitches lo k i) is out q =
     (if q \<in> (\<lambda>i. unflatten pitches i lo) ` set is then trilu_value LOWER DIM inp k q else out q)"
  by (induction "is" arbitrary: out) (auto simp: trilu_element_eq)

lemma fold_trilu_kernel:
  "fold (\<lambda>th out'. trilu_kernel LOWER DIM unflatten out' inp pitches lo volume k th) ths out =
   fold (\<lambda>i out'. trilu_element LOWER DIM unflatten out' inp pitches lo k i)
     (map global_idx (filter (\<lambda>th. global_idx th < volume) ths)) out"
  by (induction ths arbitrary: out) (simp_all add: trilu_kernel_element)

text \<open>
  The order in which the threads of a grid run makes no difference to the output: it
  depends on the set of threads only.
\<close>

lemma trilu_threads_order_irrelevant:
  assumes "set ths = set ths'"
  shows "fold (\<lambda>th out'. trilu_kernel LOWER DIM unflatten out' inp pitches lo volume k th) ths out
       = fold (\<lambda>th out'. trilu_kernel LOWER DIM unflatten out' inp pitches lo volume k th) ths' out"
proof
  fix q
  have "set (map global_idx (filter (\<lambda>th. global_idx th < volume) ths))
      = set (map global_idx (filter (\<lambda>th. global_idx th < volume) ths'))"
    using assms by simp
  then show "fold (\<lambda>th out'. trilu_kernel LOWER DIM unflatten out' inp pitches lo volume k th) ths out q
       = fold (\<lambda>th out'. trilu_kernel LOWER DIM unflatten out' inp pitches lo volume k th) ths' out q"
    by (simp only: fold_trilu_kernel fold_trilu_element)
qed

lemma TriluImplBody_GPU_apply:
  "TriluImplBody_GPU LOWER DIM unflatten out inp pitches lo volume k q =
     (if q \<in> (\<lambda>i. unflatten pitches i lo) `
              {i. i < volume \<and> i \<in> global_idx ` set (threads_of (TriluImplBody_GPU_launch volume))}
      then trilu_value LOWER DIM inp k q else out q)"
proof -
  have "set (map global_idx (filter (\<lambda>th. global_idx th < volume)
               (threads_of (TriluImplBody_GPU_launch volume))))
        = {i. i < volume \<and> i \<in> global_idx ` set (threads_of (TriluImplBody_GPU_launch volume))}"
    by auto
  then show ?thesis
    by (simp only: TriluImplBody_GPU_def launch_kernel_def fold_trilu_kernel fold_trilu_element)
qed

lemma trilu_sequential_apply:
  "trilu_sequential LOWER DIM unflatten out inp pitches lo volume k q =
     (if q \<in> (\<lambda>i. unflatten pitches i lo) ` {i. i < volume}
      then trilu_value LOWER DIM inp k q else out q)"
proof -
  have "of_nat ` {0..<unat volume} = {i. i < volume}"
  proof (intro set_eqI iffI)
    fix i :: size_t
    assume "i \<in> of_nat ` {0..<unat volume}"
    then obtain n where n: "n < unat volume" and i: "i = of_nat n" by auto
    have "unat volume < 2 ^ 64" using unsigned_less [of volume] by simp
    with n have "unat (of_nat n :: size_t) = n" by (simp add: unat_of_nat)
    with n i show "i \<in> {i. i < volume}" by (simp add: word_less_nat_alt)
  next
    fix i :: size_t
    assume "i \<in> {i. i < volume}"
    then have "unat i < unat volume" by (simp add: word_less_nat_alt)
    then have "unat i \<in> {0..<unat volume}" by simp
    then have "of_nat (unat i) \<in> (of_nat :: nat \<Rightarrow> size_t) ` {0..<unat volume}" by (rule imageI)
    then show "i \<in> of_nat ` {0..<unat volume}" by simp
  qed
  then have "set (map of_nat [0..<unat volume]) = {i :: size_t. i < volume}" by simp
  moreover have "trilu_sequential LOWER DIM unflatten out inp pitches lo volume k =
     fold (\<lambda>i out'. trilu_element LOWER DIM unflatten out' inp pitches lo k i)
       (map of_nat [0..<unat volume]) out"
    by (simp add: trilu_sequential_def fold_map comp_def)
  ultimately show ?thesis by (simp only: fold_trilu_element)
qed

lemma launch_block: "block_x (TriluImplBody_GPU_launch volume) = 128"
  by (simp add: TriluImplBody_GPU_launch_def THREADS_PER_BLOCK_def Let_def)

lemma launch_grid_small:
  assumes "unat volume \<le> 2 ^ 32"
  shows "unat (grid_x (TriluImplBody_GPU_launch volume)) = (unat volume + 127) div 128"
proof -
  have eq: "(volume + of_nat THREADS_PER_BLOCK - 1) div of_nat THREADS_PER_BLOCK
              = (volume + 127) div 128"
    by (simp add: THREADS_PER_BLOCK_def add.commute)
  have "unat volume + unat (127 :: size_t) < 2 ^ 64" using assms by simp
  then have sum: "unat (volume + 127) = unat volume + 127"
    by (simp add: unat_add_lem [THEN iffD1])
  have "unat ((volume + 127) div 128) = (unat volume + 127) div 128"
    by (simp add: unat_div sum)
  moreover have "(unat volume + 127) div 128 < 2 ^ 32" using assms by simp
  ultimately have "unat (ucast ((volume + 127) div 128) :: u32) = (unat volume + 127) div 128"
    by (simp add: unsigned_ucast_eq take_bit_nat_eq_self)
  then show ?thesis
    unfolding TriluImplBody_GPU_launch_def Let_def eq by simp
qed

lemma global_idx_small:
  assumes "unat (blockIdx_x th) * 128 + unat (threadIdx_x th) < 2 ^ 32" and "blockDim_x th = 128"
  shows "unat (global_idx th) = unat (blockIdx_x th) * 128 + unat (threadIdx_x th)"
proof -
  have m: "unat (blockIdx_x th * 128) = unat (blockIdx_x th) * 128"
    using assms(1) by (simp add: unat_mult_lem [THEN iffD1])
  have "unat (blockIdx_x th * 128 + threadIdx_x th) = unat (blockIdx_x th) * 128 + unat (threadIdx_x th)"
    using assms(1) m by (simp add: unat_add_lem [THEN iffD1])
  then show ?thesis by (simp add: global_idx_def unat_ucast_u32_size_t assms(2))
qed

lemma grid_thread_index:
  assumes "unat volume \<le> 2 ^ 32"
    and "th \<in> set (threads_of (TriluImplBody_GPU_launch volume))"
  shows "unat (global_idx th) = unat (blockIdx_x th) * 128 + unat (threadIdx_x th)"
    and "unat (blockIdx_x th) < (unat volume + 127) div 128"
    and "unat (threadIdx_x th) < 128"
    and "blockDim_x th = 128"
proof -
  from assms(2) have b: "unat (blockIdx_x th) < unat (grid_x (TriluImplBody_GPU_launch volume))"
    and d: "blockDim_x th = 128" and t: "unat (threadIdx_x th) < 128"
    by (simp_all add: set_threads_of launch_block word_less_nat_alt)
  from b show b': "unat (blockIdx_x th) < (unat volume + 127) div 128"
    by (simp add: launch_grid_small [OF assms(1)])
  from t show "unat (threadIdx_x th) < 128" .
  from d show "blockDim_x th = 128" .
  have "(unat volume + 127) div 128 \<le> 2 ^ 25" using assms(1) by simp
  with b' have "unat (blockIdx_x th) < 2 ^ 25" by simp
  with t have "unat (blockIdx_x th) * 128 + unat (threadIdx_x th) < 2 ^ 32" by simp
  then show "unat (global_idx th) = unat (blockIdx_x th) * 128 + unat (threadIdx_x th)"
    using d by (rule global_idx_small)
qed

lemma grid_covers_small_volume:
  assumes "unat volume \<le> 2 ^ 32" and "idx < volume"
  shows "\<exists>th \<in> set (threads_of (TriluImplBody_GPU_launch volume)). global_idx th = idx"
proof -
  let ?i = "unat idx"
  let ?th = "\<lparr>blockIdx_x = of_nat (?i div 128), blockDim_x = 128, threadIdx_x = of_nat (?i mod 128)\<rparr> :: thread"
  from assms have i: "?i < unat volume" by (simp add: word_less_nat_alt)
  with assms(1) have i32: "?i < 2 ^ 32" by simp
  then have bn: "unat (of_nat (?i div 128) :: u32) = ?i div 128"
    by (simp add: unat_of_nat)
  have tn: "unat (of_nat (?i mod 128) :: u32) = ?i mod 128"
    by (simp add: unat_of_nat)
  from i have blt: "?i div 128 < (unat volume + 127) div 128" by simp
  have "?th \<in> set (threads_of (TriluImplBody_GPU_launch volume))"
    using blt by (simp add: set_threads_of launch_block word_less_nat_alt bn tn
                    launch_grid_small [OF assms(1)] del: of_nat_div of_nat_mod)
  moreover have "unat (global_idx ?th) = ?i"
  proof -
    have "unat (blockIdx_x ?th) * 128 + unat (threadIdx_x ?th) < 2 ^ 32"
      using i32 by (simp add: bn tn del: of_nat_div of_nat_mod)
    from global_idx_small [OF this] show ?thesis by (simp add: bn tn del: of_nat_div of_nat_mod)
  qed
  then have "global_idx ?th = idx" by (simp add: word_unat_eq_iff)
  ultimately show ?thesis by blast
qed

lemma grid_index_unique_small_volume:
  assumes "unat volume \<le> 2 ^ 32"
    and "th \<in> set (threads_of (TriluImplBody_GPU_launch volume))"
    and "th' \<in> set (threads_of (TriluImplBody_GPU_launch volume))"
    and "global_idx th = global_idx th'"
  shows "th = th'"
proof -
  note a = grid_thread_index [OF assms(1,2)]
  note b = grid_thread_index [OF assms(1,3)]
  from assms(4) a(1) b(1)
  have e: "unat (blockIdx_x th) * 128 + unat (threadIdx_x th)
         = unat (blockIdx_x th') * 128 + unat (threadIdx_x th')" by simp
  have "(unat (blockIdx_x th) * 128 + unat (threadIdx_x th)) div 128 = unat (blockIdx_x th)"
    and "(unat (blockIdx_x th') * 128 + unat (threadIdx_x th')) div 128 = unat (blockIdx_x th')"
    using a(3) b(3) by simp_all
  with e have be: "unat (blockIdx_x th) = unat (blockIdx_x th')" by simp
  with e have "unat (threadIdx_x th) = unat (threadIdx_x th')" by simp
  with be have "blockIdx_x th = blockIdx_x th'" and "threadIdx_x th = threadIdx_x th'"
    by (simp_all add: word_unat_eq_iff)
  with a(4) b(4) show ?thesis by simp
qed

lemma grid_exactly_one_thread_small_volume:
  assumes "unat volume \<le> 2 ^ 32" and "idx < volume"
  shows "\<exists>!th. th \<in> set (threads_of (TriluImplBody_GPU_launch volume)) \<and> global_idx th = idx"
proof -
  from grid_covers_small_volume [OF assms]
  obtain th where th: "th \<in> set (threads_of (TriluImplBody_GPU_launch volume))" "global_idx th = idx"
    by blast
  show ?thesis
  proof (rule ex1I [of _ th])
    show "th \<in> set (threads_of (TriluImplBody_GPU_launch volume)) \<and> global_idx th = idx"
      using th by simp
  next
    fix th'
    assume "th' \<in> set (threads_of (TriluImplBody_GPU_launch volume)) \<and> global_idx th' = idx"
    with th show "th' = th"
      using grid_index_unique_small_volume [OF assms(1), of th' th] by simp
  qed
qed

lemma trilu_gpu_equals_sequential_small_volume:
  assumes "unat volume \<le> 2 ^ 32"
  shows "TriluImplBody_GPU LOWER DIM unflatten out inp pitches lo volume k
       = trilu_sequential LOWER DIM unflatten out inp pitches lo volume k"
proof
  fix q
  have "{i. i < volume \<and> i \<in> global_idx ` set (threads_of (TriluImplBody_GPU_launch volume))}
      = {i. i < volume}"
    using grid_covers_small_volume [OF assms] by auto
  then show "TriluImplBody_GPU LOWER DIM unflatten out inp pitches lo volume k q
       = trilu_sequential LOWER DIM unflatten out inp pitches lo volume k q"
    by (simp only: TriluImplBody_GPU_apply trilu_sequential_apply)
qed

lemma length_threads_of: "length (threads_of l) = unat (grid_x l) * unat (block_x l)"
  by (simp add: threads_of_def length_concat comp_def sum_list_triv)

lemma launch_at_wrap:
  "TriluImplBody_GPU_launch 4294967297 = \<lparr>grid_x = 33554433, block_x = 128\<rparr>"
  by (simp add: TriluImplBody_GPU_launch_def THREADS_PER_BLOCK_def)

lemma global_idx_never_2_32: "global_idx th \<noteq> 4294967296"
  using global_idx_less [of th] by auto

text \<open>
  C5 at \<open>volume = 2 ^ 32 + 1\<close>. The launch has \<open>33554433 = ceil(volume / 128)\<close>
  blocks of 128 threads, \<open>2 ^ 32 + 128\<close> threads in all. The first thread of block \<open>33554432\<close> computes
  \<open>33554432 * 128\<close> in 32 bits and so finds the linear index \<open>0\<close>, which the
  first thread of block \<open>0\<close> finds as well; and the index \<open>2 ^ 32\<close>, which is
  below \<open>volume\<close>, is found by no thread at all. So it is not the case that every
  index below \<open>volume\<close> is processed by exactly one thread.
\<close>

theorem trilu_gpu_index_wraps:
  "TriluImplBody_GPU_launch 4294967297 = \<lparr>grid_x = 33554433, block_x = 128\<rparr>
   \<and> length (threads_of (TriluImplBody_GPU_launch 4294967297)) = 4294967424
   \<and> \<lparr>blockIdx_x = 0, blockDim_x = 128, threadIdx_x = 0\<rparr>
       \<in> set (threads_of (TriluImplBody_GPU_launch 4294967297))
   \<and> \<lparr>blockIdx_x = 33554432, blockDim_x = 128, threadIdx_x = 0\<rparr>
       \<in> set (threads_of (TriluImplBody_GPU_launch 4294967297))
   \<and> global_idx \<lparr>blockIdx_x = 0, blockDim_x = 128, threadIdx_x = 0\<rparr> = 0
   \<and> global_idx \<lparr>blockIdx_x = 33554432, blockDim_x = 128, threadIdx_x = 0\<rparr> = 0
   \<and> (4294967296 :: size_t) < 4294967297
   \<and> (\<forall>th. global_idx th \<noteq> 4294967296)"
  by (simp add: launch_at_wrap set_threads_of length_threads_of global_idx_never_2_32)
     (simp add: global_idx_def)

lemma trilu_gpu_writes_small_volume:
  assumes "unat volume \<le> 2 ^ 32" and "idx < volume"
  shows "TriluImplBody_GPU LOWER DIM unflatten out inp pitches lo volume k (unflatten pitches idx lo)
       = trilu_value LOWER DIM inp k (unflatten pitches idx lo)"
proof -
  from grid_covers_small_volume [OF assms] assms(2)
  have "idx \<in> {i. i < volume \<and> i \<in> global_idx ` set (threads_of (TriluImplBody_GPU_launch volume))}"
    by auto
  then have "unflatten pitches idx lo \<in> (\<lambda>i. unflatten pitches i lo) `
      {i. i < volume \<and> i \<in> global_idx ` set (threads_of (TriluImplBody_GPU_launch volume))}"
    by (rule imageI)
  then show ?thesis by (simp only: TriluImplBody_GPU_apply if_True)
qed

lemma trilu_gpu_partition_small_volume:
  fixes inp :: "point \<Rightarrow> 'v::monoid_add"
  assumes "unat volume \<le> 2 ^ 32" and "idx < volume" and "sint k < 2147483647"
  shows "TriluImplBody_GPU True DIM unflatten out_l inp pitches lo volume k (unflatten pitches idx lo)
       + TriluImplBody_GPU False DIM unflatten out_u inp pitches lo volume (k + 1)
           (unflatten pitches idx lo)
       = inp (unflatten pitches idx lo)"
  using sint_succ_int32 [OF assms(3)]
  by (simp add: trilu_gpu_writes_small_volume [OF assms(1,2)] trilu_value_def)

text \<open>
  C7 at \<open>volume = 2 ^ 32 + 1\<close>. The first threads of blocks \<open>0\<close> and
  \<open>33554432\<close> do the same write, to the same element, whatever \<open>unflatten\<close>
  is. And for one row of \<open>2 ^ 32 + 1\<close> elements, unflattened in row-major order
  with the pitch \<open>2 ^ 32 + 1\<close> (injectively, then), the upper extraction with offset
  \<open>0\<close> of an input of ones into an output of zeros leaves \<open>0\<close> in the last
  element after the grid launch, where the sequential loop over \<open>idx\<close> from
  \<open>0\<close> to \<open>volume - 1\<close> leaves \<open>1\<close>.
\<close>

theorem trilu_gpu_differs_from_sequential:
  "trilu_kernel LOWER DIM unflatten out inp pitches lo 4294967297 k
       \<lparr>blockIdx_x = 0, blockDim_x = 128, threadIdx_x = 0\<rparr>
     = trilu_kernel LOWER DIM unflatten out inp pitches lo 4294967297 k
       \<lparr>blockIdx_x = 33554432, blockDim_x = 128, threadIdx_x = 0\<rparr>
   \<and> TriluImplBody_GPU False 2
       (\<lambda>(pitch :: nat) idx lo. [lo ! 0 + int (unat idx div pitch), lo ! 1 + int (unat idx mod pitch)])
       (\<lambda>_. 0) (\<lambda>_. 1) 4294967297 [0, 0] 4294967297 0 [0, 4294967296] = (0 :: int)
   \<and> trilu_sequential False 2
       (\<lambda>(pitch :: nat) idx lo. [lo ! 0 + int (unat idx div pitch), lo ! 1 + int (unat idx mod pitch)])
       (\<lambda>_. 0) (\<lambda>_. 1) 4294967297 [0, 0] 4294967297 0 [0, 4294967296] = (1 :: int)"
proof (intro conjI)
  show "trilu_kernel LOWER DIM unflatten out inp pitches lo 4294967297 k
       \<lparr>blockIdx_x = 0, blockDim_x = 128, threadIdx_x = 0\<rparr>
     = trilu_kernel LOWER DIM unflatten out inp pitches lo 4294967297 k
       \<lparr>blockIdx_x = 33554432, blockDim_x = 128, threadIdx_x = 0\<rparr>"
    by (simp add: trilu_kernel_def global_idx_def)
next
  let ?unflatten = "\<lambda>(pitch :: nat) (idx :: size_t) (lo :: point).
        [lo ! 0 + int (unat idx div pitch), lo ! 1 + int (unat idx mod pitch)]"
  have "[0, 4294967296] \<notin> (\<lambda>i. ?unflatten 4294967297 i [0, 0]) `
          {i. i < 4294967297 \<and> i \<in> global_idx ` set (threads_of (TriluImplBody_GPU_launch 4294967297))}"
  proof
    assume "[0, 4294967296] \<in> (\<lambda>i. ?unflatten 4294967297 i [0, 0]) `
          {i. i < 4294967297 \<and> i \<in> global_idx ` set (threads_of (TriluImplBody_GPU_launch 4294967297))}"
    then obtain i where i: "[0, 4294967296] = ?unflatten 4294967297 i [0, 0]"
      and "i \<in> global_idx ` set (threads_of (TriluImplBody_GPU_launch 4294967297))"
      by blast
    then obtain th where "i = global_idx th" by blast
    with global_idx_less [of th] have small: "unat i < 2 ^ 32" by simp
    then have "unat i mod 4294967297 = unat i" by simp
    with i have "int (unat i) = 4294967296" by simp
    with small show False by simp
  qed
  then show "TriluImplBody_GPU False 2 ?unflatten (\<lambda>_. 0) (\<lambda>_. 1) 4294967297 [0, 0] 4294967297 0
               [0, 4294967296] = (0 :: int)"
    by (simp only: TriluImplBody_GPU_apply if_False)
next
  let ?unflatten = "\<lambda>(pitch :: nat) (idx :: size_t) (lo :: point).
        [lo ! 0 + int (unat idx div pitch), lo ! 1 + int (unat idx mod pitch)]"
  have "?unflatten 4294967297 4294967296 [0, 0] = [0, 4294967296]" by simp
  moreover have "(4294967296 :: size_t) \<in> {i. i < 4294967297}" by simp
  ultimately have "[0, 4294967296] \<in> (\<lambda>i. ?unflatten 4294967297 i [0, 0]) ` {i. i < 4294967297}"
    by (metis (no_types, lifting) image_eqI)
  then show "trilu_sequential False 2 ?unflatten (\<lambda>_. 0) (\<lambda>_. 1) 4294967297 [0, 0] 4294967297 0
               [0, 4294967296] = (1 :: int)"
    by (simp only: trilu_sequential_apply if_True) (simp add: trilu_value_def)
qed

end
